theory Spec2Isabelle
  imports Main
begin

section \<open>Strings as the highlighter uses them\<close>

text \<open>
  Source strings are modelled as \<^typ>\<open>string\<close>, one \<^typ>\<open>char\<close> per code unit
  (code units 0 to 255). The operations below are the string methods that
  \<^verbatim>\<open>src/utils/documentHighlighter.ts\<close> calls: \<^verbatim>\<open>split('\n')\<close>, \<^verbatim>\<open>join('\n')\<close>,
  \<^verbatim>\<open>trim()\<close>, \<^verbatim>\<open>includes(s)\<close> and \<^verbatim>\<open>replace(/c/g, r)\<close>.
\<close>

definition newline :: char where
  "newline = CHR 0x0A"

definition dquote :: char where
  "dquote = CHR 0x22"

definition squote :: char where
  "squote = CHR 0x27"

text \<open>\<^verbatim>\<open>s.split('\n')\<close>: the empty string gives one empty line, a trailing line break
  gives a last empty line. The result is never empty, so the first case of the \<open>case\<close> is
  never taken.\<close>

fun split_lines :: "string \<Rightarrow> string list" where
  "split_lines [] = [[]]"
| "split_lines (c # cs) =
     (if c = newline then [] # split_lines cs
      else (case split_lines cs of [] \<Rightarrow> [[c]] | l # ls \<Rightarrow> (c # l) # ls))"

text \<open>\<^verbatim>\<open>xs.join('\n')\<close>.\<close>

fun join_lines :: "string list \<Rightarrow> string" where
  "join_lines [] = []"
| "join_lines [x] = x"
| "join_lines (x # y # ys) = x @ newline # join_lines (y # ys)"

text \<open>The white space that \<^verbatim>\<open>trim()\<close> removes, among the code units 0 to 255: tab, line feed,
  vertical tab, form feed, carriage return, space and the no-break space.\<close>

definition isWhiteSpace :: "char \<Rightarrow> bool" where
  "isWhiteSpace c =
     (c = CHR 0x09 \<or> c = CHR 0x0A \<or> c = CHR 0x0B \<or> c = CHR 0x0C \<or> c = CHR 0x0D
      \<or> c = CHR 0x20 \<or> c = CHR 0xA0)"

definition trim :: "string \<Rightarrow> string" where
  "trim s = rev (dropWhile isWhiteSpace (rev (dropWhile isWhiteSpace s)))"

text \<open>\<^verbatim>\<open>s.includes(sub)\<close>: \<open>sub\<close> occurs in \<open>s\<close> as a contiguous substring.\<close>

fun includes_str :: "string \<Rightarrow> string \<Rightarrow> bool" where
  "includes_str [] sub = (sub = [])"
| "includes_str (c # cs) sub = (take (length sub) (c # cs) = sub \<or> includes_str cs sub)"

text \<open>\<^verbatim>\<open>s.replace(/c/g, r)\<close> for a one-character pattern \<open>c\<close>: every occurrence of \<open>c\<close> is
  replaced by \<open>r\<close>, scanning left to right; the replacement text is not scanned again.\<close>

fun replaceAll :: "char \<Rightarrow> string \<Rightarrow> string \<Rightarrow> string" where
  "replaceAll c r [] = []"
| "replaceAll c r (x # xs) = (if x = c then r @ replaceAll c r xs else x # replaceAll c r xs)"


section \<open>The diff result\<close>

datatype line_type = added | removed | unchanged

record DiffLine =
  type :: line_type
  line :: string

text \<open>The field \<^verbatim>\<open>stats\<close> has the source type \<^verbatim>\<open>any\<close>; it is a type parameter here.\<close>

record 'stats DiffResult =
  diff_lines :: "DiffLine list"
  stats :: 'stats
  ai_summary :: string


section \<open>\<^verbatim>\<open>escapeHtml\<close> and \<^verbatim>\<open>highlightMergedContent\<close>\<close>

text \<open>Five global replacements, applied one after the other in the order of the source.\<close>

definition escapeHtml :: "string \<Rightarrow> string" where
  "escapeHtml unsafe =
     replaceAll squote ''&#039;''
       (replaceAll dquote ''&quot;''
         (replaceAll (CHR ''>'') ''&gt;''
           (replaceAll (CHR ''<'') ''&lt;''
             (replaceAll (CHR ''&'') ''&amp;'' unsafe))))"

definition added_open :: string where
  "added_open = ''<span class='' @ dquote # ''added-content'' @ dquote # ''>''"

definition conflict_open :: string where
  "conflict_open = ''<span class='' @ dquote # ''conflict-content'' @ dquote # ''>''"

definition span_close :: string where
  "span_close = ''</span>''"

text \<open>The first \<^verbatim>\<open>forEach\<close>: the set \<^verbatim>\<open>addedLines\<close>, filled from the diff lines of type
  \<^verbatim>\<open>'added'\<close>, each trimmed.\<close>

definition collectAdded :: "DiffLine \<Rightarrow> string set \<Rightarrow> string set" where
  "collectAdded l addedLines =
     (if type l = added then insert (trim (line l)) addedLines else addedLines)"

definition addedLinesOf :: "DiffLine list \<Rightarrow> string set" where
  "addedLinesOf ls = fold collectAdded ls {}"

text \<open>The body of the second \<^verbatim>\<open>forEach\<close>: one string is pushed on \<^verbatim>\<open>highlightedLines\<close> for
  each merged line.\<close>

definition pushHighlighted :: "string set \<Rightarrow> string \<Rightarrow> string list \<Rightarrow> string list" where
  "pushHighlighted addedLines ln highlightedLines =
     (let trimmedLine = trim ln in
      if trimmedLine \<in> addedLines then
        highlightedLines @ [added_open @ escapeHtml ln @ span_close]
      else if includes_str ln ''<<<'' \<and> includes_str ln ''>>>'' then
        highlightedLines @ [conflict_open @ escapeHtml ln @ span_close]
      else
        highlightedLines @ [escapeHtml ln])"

text \<open>The exported function. A \<^verbatim>\<open>null\<close> diff result is \<open>None\<close>; an empty string is the only
  falsy string, so the guard \<^verbatim>\<open>!mergedContent || !diffResult\<close> returns the content as it is
  when the content is empty or the diff result is missing.\<close>

definition highlightMergedContent :: "string \<Rightarrow> 'stats DiffResult option \<Rightarrow> string" where
  "highlightMergedContent mergedContent diffResult =
     (case diffResult of
        None \<Rightarrow> mergedContent
      | Some d \<Rightarrow>
          if mergedContent = [] then mergedContent
          else
            let mergedLines = split_lines mergedContent;
                addedLines = addedLinesOf (diff_lines d);
                highlightedLines = fold (pushHighlighted addedLines) mergedLines []
            in join_lines highlightedLines)"

subsection \<open>The highlight of a line\<close>

text \<open>The loop body takes one of three branches for a line. \<open>branchOf\<close> names the branch taken
  (the conditions of the source, in its order) and \<open>render\<close> is the string that branch pushes;
  the spec calls the three branches Added, Conflict and None.\<close>

datatype highlight = Added | Conflict | NoHighlight

definition branchOf :: "string set \<Rightarrow> string \<Rightarrow> highlight" where
  "branchOf addedLines ln =
     (if trim ln \<in> addedLines then Added
      else if includes_str ln ''<<<'' \<and> includes_str ln ''>>>'' then Conflict
      else NoHighlight)"

fun render :: "highlight \<Rightarrow> string \<Rightarrow> string" where
  "render Added ln = added_open @ escapeHtml ln @ span_close"
| "render Conflict ln = conflict_open @ escapeHtml ln @ span_close"
| "render NoHighlight ln = escapeHtml ln"

text \<open>The classification that \<^verbatim>\<open>highlightMergedContent\<close> applies, line by line. Empty content
  never reaches the loop: the guard returns it as it is, which is its one empty line without
  any highlight.\<close>

definition classify :: "string \<Rightarrow> 'stats DiffResult \<Rightarrow> (string \<times> highlight) list" where
  "classify mergedContent d =
     (if mergedContent = [] then [([], NoHighlight)]
      else map (\<lambda>ln. (ln, branchOf (addedLinesOf (diff_lines d)) ln)) (split_lines mergedContent))"

subsection \<open>The classification as the spec words it\<close>

text \<open>The set of added line texts: the trimmed text of every diff line of kind Added.\<close>

definition added_set_spec :: "'stats DiffResult \<Rightarrow> string set" where
  "added_set_spec d = (\<lambda>l. trim (line l)) ` set (filter (\<lambda>l. type l = added) (diff_lines d))"

definition classify_line_spec :: "string set \<Rightarrow> string \<Rightarrow> highlight" where
  "classify_line_spec A ln =
     (if trim ln \<in> A then Added
      else if includes_str ln ''<<<'' \<and> includes_str ln ''>>>'' then Conflict
      else NoHighlight)"

definition classify_spec :: "string \<Rightarrow> 'stats DiffResult \<Rightarrow> (string \<times> highlight) list" where
  "classify_spec mergedContent d =
     map (\<lambda>ln. (ln, classify_line_spec (added_set_spec d) ln)) (split_lines mergedContent)"

text \<open>The escaping as the spec words it: each character is replaced by its entity, all at
  once.\<close>

definition entity :: "char \<Rightarrow> string" where
  "entity c =
     (if c = CHR ''&'' then ''&amp;''
      else if c = CHR ''<'' then ''&lt;''
      else if c = CHR ''>'' then ''&gt;''
      else if c = dquote then ''&quot;''
      else if c = squote then ''&#039;''
      else [c])"

definition escape_spec :: "string \<Rightarrow> string" where
  "escape_spec s = concat (map entity s)"



section \<open>The task poller: \<^verbatim>\<open>pollTaskUntilComplete\<close> (\<^verbatim>\<open>src/services/api.ts\<close>)\<close>

text \<open>The JavaScript idiom \<^verbatim>\<open>x || d\<close> on an optional string: \<open>d\<close> when \<open>x\<close> is undefined or
  empty.\<close>

definition or_else :: "string option \<Rightarrow> string \<Rightarrow> string" where
  "or_else x d = (case x of None \<Rightarrow> d | Some v \<Rightarrow> if v = [] then d else v)"

text \<open>\<^verbatim>\<open>response.data\<close> of a status request. The status is the string the service sent; the
  code compares it with \<^verbatim>\<open>'completed'\<close> and \<^verbatim>\<open>'failed'\<close> only.\<close>

record 'r TaskStatus =
  status :: string
  progress :: "int option"
  message :: "string option"
  result :: "'r option"
  error :: "string option"

text \<open>\<^verbatim>\<open>await getTaskStatus(taskId)\<close> either rejects (no response, or a response the HTTP client
  turns into a rejection) or yields a response.\<close>

datatype 'r reply = RequestFailed | Response "'r TaskStatus"

text \<open>What a \<^verbatim>\<open>throw\<close> (or a rejected \<^verbatim>\<open>await\<close>) carries.\<close>

datatype thrown = Error string | RequestError

text \<open>The state of one call of \<^verbatim>\<open>pollTaskUntilComplete\<close>: the counter \<^verbatim>\<open>attempts\<close> of the
  source, and what the call has done so far: the number of status requests issued, the
  delays it has slept (one entry per \<^verbatim>\<open>setTimeout\<close>), and the caller's state \<open>ui\<close> that the
  callback \<^verbatim>\<open>onProgress\<close> updates. The counter and the parameters \<^verbatim>\<open>interval\<close> and
  \<^verbatim>\<open>maxAttempts\<close> are integers, as the defaults 1000 and 120 are; numbers that are not
  integers are outside the model.\<close>

record 's poll_state =
  attempts :: int
  requests :: nat
  slept :: "int list"
  ui :: 's

definition max_attempts_message :: string where
  "max_attempts_message = ''Maximum polling attempts reached''"

text \<open>\<^verbatim>\<open>if (onProgress && result.progress !== undefined) onProgress(result.progress,
  result.message || '')\<close>.\<close>

definition reportProgress ::
  "(int \<Rightarrow> string \<Rightarrow> 's \<Rightarrow> 's) option \<Rightarrow> 'r TaskStatus \<Rightarrow> 's poll_state \<Rightarrow> 's poll_state" where
  "reportProgress onProgress res st =
     (case onProgress of
        None \<Rightarrow> st
      | Some f \<Rightarrow>
          (case progress res of
             None \<Rightarrow> st
           | Some p \<Rightarrow> st\<lparr>ui := f p (or_else (message res) []) (ui st)\<rparr>))"

text \<open>\<^verbatim>\<open>attempts++; await new Promise(resolve => setTimeout(resolve, interval))\<close>.\<close>

definition sleepAndCount :: "int \<Rightarrow> 's poll_state \<Rightarrow> 's poll_state" where
  "sleepAndCount interval st = st\<lparr>attempts := attempts st + 1, slept := slept st @ [interval]\<rparr>"

text \<open>
  The inner function \<^verbatim>\<open>poll\<close>. The service is the parameter \<open>getTaskStatus\<close>: the reply to
  the \<open>k\<close>-th status request (counted from 0) for a task id. \<open>poll\<close> is the \<^verbatim>\<open>try\<close> block and
  \<open>poll_catch\<close> the \<^verbatim>\<open>catch\<close> block: every \<^verbatim>\<open>throw\<close> inside the \<^verbatim>\<open>try\<close> block, and a rejected
  \<^verbatim>\<open>await getTaskStatus\<close>, continue in \<open>poll_catch\<close> with the thrown value. The recursive calls
  are \<^verbatim>\<open>return poll()\<close> without \<^verbatim>\<open>await\<close>, so a rejection of the inner call is the rejection
  of the outer call and does not enter the outer \<^verbatim>\<open>catch\<close>. The result is \<open>Inr\<close> of the
  response the promise resolves with, or \<open>Inl\<close> of the error it rejects with, and the final
  state.
\<close>

function poll ::
    "(string \<Rightarrow> nat \<Rightarrow> 'r reply) \<Rightarrow> string \<Rightarrow> (int \<Rightarrow> string \<Rightarrow> 's \<Rightarrow> 's) option \<Rightarrow> int \<Rightarrow> int
      \<Rightarrow> 's poll_state \<Rightarrow> (thrown + 'r TaskStatus) \<times> 's poll_state"
  and poll_catch ::
    "(string \<Rightarrow> nat \<Rightarrow> 'r reply) \<Rightarrow> string \<Rightarrow> (int \<Rightarrow> string \<Rightarrow> 's \<Rightarrow> 's) option \<Rightarrow> int \<Rightarrow> int
      \<Rightarrow> thrown \<Rightarrow> 's poll_state \<Rightarrow> (thrown + 'r TaskStatus) \<times> 's poll_state"
where
  "poll getTaskStatus taskId onProgress interval maxAttempts st =
     (case getTaskStatus taskId (requests st) of
        RequestFailed \<Rightarrow>
          poll_catch getTaskStatus taskId onProgress interval maxAttempts RequestError
            (st\<lparr>requests := requests st + 1\<rparr>)
      | Response res \<Rightarrow>
          (let st' = reportProgress onProgress res (st\<lparr>requests := requests st + 1\<rparr>) in
           if status res = ''completed'' then (Inr res, st')
           else if status res = ''failed'' then
             poll_catch getTaskStatus taskId onProgress interval maxAttempts
               (Error (or_else (error res) ''Task failed'')) st'
           else if attempts st' \<ge> maxAttempts then
             poll_catch getTaskStatus taskId onProgress interval maxAttempts
               (Error max_attempts_message) st'
           else
             poll getTaskStatus taskId onProgress interval maxAttempts
               (sleepAndCount interval st')))"
| "poll_catch getTaskStatus taskId onProgress interval maxAttempts err st =
     (if attempts st \<ge> maxAttempts then (Inl (Error max_attempts_message), st)
      else poll getTaskStatus taskId onProgress interval maxAttempts (sleepAndCount interval st))"
  by pat_completeness auto

termination
  by (relation "measure (\<lambda>x. case x of
          Inl (_, _, _, _, maxAttempts, st) \<Rightarrow> 2 * nat (maxAttempts - attempts st) + 1
        | Inr (_, _, _, _, maxAttempts, _, st) \<Rightarrow> 2 * nat (maxAttempts - attempts st))")
     (auto simp: sleepAndCount_def reportProgress_def split: option.splits)

definition pollTaskUntilComplete ::
  "(string \<Rightarrow> nat \<Rightarrow> 'r reply) \<Rightarrow> string \<Rightarrow> (int \<Rightarrow> string \<Rightarrow> 's \<Rightarrow> 's) option \<Rightarrow> int \<Rightarrow> int
     \<Rightarrow> 's \<Rightarrow> (thrown + 'r TaskStatus) \<times> 's poll_state" where
  "pollTaskUntilComplete getTaskStatus taskId onProgress interval maxAttempts ui0 =
     poll getTaskStatus taskId onProgress interval maxAttempts
       \<lparr>attempts = 0, requests = 0, slept = [], ui = ui0\<rparr>"

subsection \<open>Services to run the loop against\<close>

text \<open>A task that the service reports as failed, with the reason \<open>x\<close>, on every status
  request; a task that stays running; and a service that does not answer every other
  request while the task is pending.\<close>

definition failing_task :: "string \<Rightarrow> nat \<Rightarrow> unit reply" where
  "failing_task taskId k =
     Response \<lparr>status = ''failed'', progress = None, message = None, result = None,
               error = Some ''x''\<rparr>"

definition running_task :: "string \<Rightarrow> nat \<Rightarrow> unit reply" where
  "running_task taskId k =
     Response \<lparr>status = ''running'', progress = Some 50, message = Some ''working'',
               result = None, error = None\<rparr>"

definition flaky_task :: "string \<Rightarrow> nat \<Rightarrow> unit reply" where
  "flaky_task taskId k =
     (if even k then RequestFailed
      else Response \<lparr>status = ''pending'', progress = None, message = None, result = None,
                     error = None\<rparr>)"


section \<open>The goal form: \<^verbatim>\<open>handleSubmit\<close> (\<^verbatim>\<open>src/components/GoalSetting/GoalSetting.tsx\<close>)\<close>

datatype strategy = latest | original | both | custom

datatype priority = accuracy | completeness | conciseness

text \<open>The optional fields of the interface \<^verbatim>\<open>MergeGoal\<close> are options: \<open>None\<close> is
  \<^verbatim>\<open>undefined\<close>.\<close>

record MergeGoal =
  strategy :: strategy
  customRules :: "string list option"
  priorities :: "priority list option"
  preserveSections :: "string list option"
  goal_notes :: "string option"

text \<open>The state of the component \<^verbatim>\<open>GoalSetting\<close>.\<close>

record GoalSetting =
  goal :: MergeGoal
  customRule :: string
  sectionToPreserve :: string
  gs_activeStep :: int
  gs_error :: "string option"

text \<open>\<^verbatim>\<open>!xs || xs.length === 0\<close> on an optional array.\<close>

definition missing_or_empty :: "'a list option \<Rightarrow> bool" where
  "missing_or_empty xs = (case xs of None \<Rightarrow> True | Some ys \<Rightarrow> length ys = 0)"

text \<open>\<^verbatim>\<open>handleSubmit\<close>. The property \<^verbatim>\<open>onGoalSet\<close> is a callback of the parent; it is a
  parameter here, acting on the state \<open>'p\<close> of everything outside the component (the parent
  and, through it, the service). The result is the component's state and the outside
  state.\<close>

definition handleSubmit ::
  "(MergeGoal \<Rightarrow> 'p \<Rightarrow> 'p) \<Rightarrow> GoalSetting \<Rightarrow> 'p \<Rightarrow> GoalSetting \<times> 'p" where
  "handleSubmit onGoalSet gs outside =
     (if strategy (goal gs) = custom \<and> missing_or_empty (customRules (goal gs)) then
        (gs\<lparr>gs_error := Some ''Please add at least one custom rule when using the custom strategy''\<rparr>,
         outside)
      else if missing_or_empty (priorities (goal gs)) then
        (gs\<lparr>gs_error := Some ''Please select at least one priority''\<rparr>, outside)
      else
        (gs\<lparr>gs_error := None\<rparr>, onGoalSet (goal gs) outside))"


section \<open>The workflow page (\<^verbatim>\<open>src/pages/HomePage.tsx\<close>)\<close>

text \<open>A selected document; the browser's file handle (\<^verbatim>\<open>file\<close>) carries no data the page
  reads and is left out.\<close>

record Document =
  doc_id :: "int option"
  filename :: string
  uploaded :: "bool option"

text \<open>The state variables of \<^verbatim>\<open>HomePage\<close>. \<^verbatim>\<open>activeStep\<close> indexes
  \<^verbatim>\<open>['Goal Setting', 'Document Upload', 'Diff Viewer', 'Review']\<close>, so step 0 is goal
  setting.\<close>

record 'stats HomePage =
  activeStep :: int
  documents :: "Document list"
  mergeGoal :: "MergeGoal option"
  diffResult :: "'stats DiffResult option"
  mergedContent :: string
  hp_error :: "string option"
  success :: "string option"
  loading :: bool
  loadingMessage :: string
  loadingProgress :: "int option"
  isComplete :: bool
  mergeTaskId :: "string option"

definition handleNext :: "'stats HomePage \<Rightarrow> 'stats HomePage" where
  "handleNext hp = hp\<lparr>activeStep := activeStep hp + 1\<rparr>"

definition handleGoalSet :: "MergeGoal \<Rightarrow> 'stats HomePage \<Rightarrow> 'stats HomePage" where
  "handleGoalSet g hp = handleNext (hp\<lparr>mergeGoal := Some g\<rparr>)"

definition handleReset :: "'stats HomePage \<Rightarrow> 'stats HomePage" where
  "handleReset hp =
     hp\<lparr>activeStep := 0, documents := [], mergeGoal := None, diffResult := None,
        mergedContent := [], mergeTaskId := None, isComplete := False\<rparr>"

subsection \<open>The merge-result request\<close>

text \<open>\<^verbatim>\<open>response.data\<close> of \<^verbatim>\<open>getMergeResult(taskId, true)\<close>, as far as the client reads it.\<close>

record MergeResultData =
  data_id :: "int option"
  data_filename :: "string option"

text \<open>The error object of a rejected request, as far as \<^verbatim>\<open>handleApiError\<close> and the
  \<^verbatim>\<open>catch\<close> blocks read it: the status and the \<^verbatim>\<open>detail\<close> of \<^verbatim>\<open>error.response\<close> when there
  is a response, whether \<^verbatim>\<open>error.request\<close> is set, and \<^verbatim>\<open>error.message\<close>.\<close>

record ApiError =
  response_status :: "nat option"
  response_detail :: "string option"
  has_request :: bool
  err_message :: "string option"

datatype merge_reply = MergeRejected ApiError | MergeResponse "MergeResultData option"

text \<open>
  The service behind \<^verbatim>\<open>getMergeResult(taskId, applyResult)\<close> is a parameter of the functions
  below: a function from the task id, the flag and the state \<open>'w\<close> of the service to the
  reply and the service's next state. The request carries the task id and the flag and
  nothing else (\<^verbatim>\<open>GET /diffs/merge-result/${taskId}?apply_result=${applyResult}\<close>).
\<close>

type_synonym 'w merge_service = "string \<Rightarrow> bool \<Rightarrow> 'w \<Rightarrow> merge_reply \<times> 'w"

text \<open>A template literal prints a missing value as \<^verbatim>\<open>undefined\<close>.\<close>

definition template :: "string option \<Rightarrow> string" where
  "template x = (case x of None \<Rightarrow> ''undefined'' | Some v \<Rightarrow> v)"

text \<open>A string is truthy when it is present and not empty, a number when it is present and
  not zero.\<close>

definition truthy_string :: "string option \<Rightarrow> bool" where
  "truthy_string x = (case x of None \<Rightarrow> False | Some v \<Rightarrow> v \<noteq> [])"

definition truthy_number :: "int option \<Rightarrow> bool" where
  "truthy_number x = (case x of None \<Rightarrow> False | Some v \<Rightarrow> v \<noteq> 0)"

fun show_nat :: "nat \<Rightarrow> string" where
  "show_nat n =
     (if n < 10 then [char_of (48 + n)]
      else show_nat (n div 10) @ [char_of (48 + n mod 10)])"

text \<open>\<^verbatim>\<open>handleApiError\<close> (\<^verbatim>\<open>src/services/api.ts\<close>), the message it returns. Its removal of the
  stored credential on status 401 touches nothing the workflow state holds and is not
  modelled.\<close>

definition handleApiError :: "ApiError \<Rightarrow> string" where
  "handleApiError e =
     (case response_status e of
        Some st \<Rightarrow>
          if st = 401 then ''Authentication error. Please log in again.''
          else if truthy_string (response_detail e) then the (response_detail e)
          else ''Server error: '' @ show_nat st
      | None \<Rightarrow>
          if has_request e then ''No response from server. Please check your connection.''
          else ''Error: '' @ template (err_message e))"

text \<open>\<^verbatim>\<open>new Error(msg)\<close> as \<^verbatim>\<open>handleApiError\<close> and the \<^verbatim>\<open>catch\<close> blocks see it.\<close>

definition plain_error :: "string \<Rightarrow> ApiError" where
  "plain_error msg =
     \<lparr>response_status = None, response_detail = None, has_request = False,
      err_message = Some msg\<rparr>"

text \<open>\<^verbatim>\<open>applyMergeResult\<close>: the \<^verbatim>\<open>throw\<close> of the \<^verbatim>\<open>else\<close> branch lands in the \<^verbatim>\<open>catch\<close> block
  of the same function; \<^verbatim>\<open>finally\<close> clears the loading flag on every path.\<close>

definition applyMergeResult ::
  "'w merge_service \<Rightarrow> string \<Rightarrow> 'stats HomePage \<times> 'w \<Rightarrow> 'stats HomePage \<times> 'w" where
  "applyMergeResult getMergeResult taskId s =
     (let hp = (fst s)\<lparr>loading := True, loadingMessage := ''Finalizing document...'',
                       loadingProgress := None\<rparr>
      in case getMergeResult taskId True (snd s) of
           (MergeRejected err, w') \<Rightarrow>
             (hp\<lparr>hp_error := Some (handleApiError err), loading := False\<rparr>, w')
         | (MergeResponse dat, w') \<Rightarrow>
             (case dat of
                None \<Rightarrow>
                  (hp\<lparr>hp_error := Some (handleApiError (plain_error ''Failed to save merged document'')),
                      loading := False\<rparr>, w')
              | Some d \<Rightarrow>
                  if truthy_number (data_id d) then
                    (hp\<lparr>success := Some (''Document '' @ dquote # template (data_filename d)
                                           @ dquote # '' successfully merged and saved!''),
                        isComplete := True, loading := False\<rparr>, w')
                  else
                    (hp\<lparr>hp_error := Some (handleApiError (plain_error ''Failed to save merged document'')),
                        loading := False\<rparr>, w')))"

text \<open>\<^verbatim>\<open>handleFinalizeMerge(finalContent, filename)\<close> of the page: the parameter
  \<^verbatim>\<open>finalContent\<close> is not used in the body.\<close>

definition handleFinalizeMerge ::
  "'w merge_service \<Rightarrow> string \<Rightarrow> string option \<Rightarrow> 'stats HomePage \<times> 'w \<Rightarrow> 'stats HomePage \<times> 'w" where
  "handleFinalizeMerge getMergeResult finalContent fname s =
     (if truthy_string (mergeTaskId (fst s)) then
        applyMergeResult getMergeResult (the (mergeTaskId (fst s))) s
      else
        ((fst s)\<lparr>success := Some (''Document '' @ dquote # template fname
                                  @ dquote # '' successfully merged and saved!''),
                 isComplete := True\<rparr>, snd s))"


section \<open>The review step (\<^verbatim>\<open>src/components/Review/Review.tsx\<close>)\<close>

text \<open>The state variables of \<^verbatim>\<open>Review\<close> that the handlers below read or write.\<close>

record Review =
  finalContent :: string
  isEditing :: bool
  editedContent :: string
  rv_filename :: string
  rv_loading :: bool
  rv_loadingMessage :: string
  rv_loadingProgress :: "int option"
  rv_error :: "string option"
  showConfirmDialog :: bool
  rv_mergeTaskId :: "string option"

definition handleEditToggle :: "Review \<Rightarrow> Review" where
  "handleEditToggle r =
     (if isEditing r then r\<lparr>finalContent := editedContent r, isEditing := \<not> isEditing r\<rparr>
      else r\<lparr>editedContent := finalContent r, isEditing := \<not> isEditing r\<rparr>)"

definition handleContentChange :: "string \<Rightarrow> Review \<Rightarrow> Review" where
  "handleContentChange v r = r\<lparr>editedContent := v\<rparr>"

text \<open>\<^verbatim>\<open>confirmFinalizeMerge\<close>. The property \<^verbatim>\<open>onFinalizeMerge\<close> is a parameter acting on the
  state \<open>'p\<close> outside the component (the page and the service); the page passes its
  \<^verbatim>\<open>handleFinalizeMerge\<close>. The result is the component's state and the outside state.\<close>

definition confirmFinalizeMerge ::
  "'w merge_service \<Rightarrow> (string \<Rightarrow> string option \<Rightarrow> 'p \<times> 'w \<Rightarrow> 'p \<times> 'w) \<Rightarrow> Review \<Rightarrow> 'p \<times> 'w
     \<Rightarrow> Review \<times> 'p \<times> 'w" where
  "confirmFinalizeMerge getMergeResult onFinalizeMerge r s =
     (let r1 = r\<lparr>showConfirmDialog := False, rv_loading := True,
                 rv_loadingMessage := ''Finalizing merge...'', rv_loadingProgress := None\<rparr>
      in if truthy_string (rv_mergeTaskId r) then
           (case getMergeResult (the (rv_mergeTaskId r)) True (snd s) of
              (MergeRejected err, w') \<Rightarrow>
                (r1\<lparr>rv_error := Some (''Failed to finalize merge: ''
                                        @ or_else (err_message err) ''Unknown error''),
                    rv_loading := False\<rparr>, fst s, w')
            | (MergeResponse dat, w') \<Rightarrow>
                (case dat of
                   None \<Rightarrow>
                     (r1\<lparr>rv_loading := False\<rparr>,
                      onFinalizeMerge (finalContent r) (Some (rv_filename r)) (fst s, w'))
                 | Some d \<Rightarrow>
                     if truthy_number (data_id d) then
                       (r1\<lparr>rv_loading := False\<rparr>,
                        onFinalizeMerge (finalContent r) (data_filename d) (fst s, w'))
                     else
                       (r1\<lparr>rv_loading := False\<rparr>,
                        onFinalizeMerge (finalContent r) (Some (rv_filename r)) (fst s, w'))))
         else
           (r1\<lparr>rv_loading := False\<rparr>,
            onFinalizeMerge (finalContent r) (Some (rv_filename r)) s))"

text \<open>The page and the review step wired as \<^verbatim>\<open>getStepContent\<close> wires them:
  \<^verbatim>\<open>onFinalizeMerge={handleFinalizeMerge}\<close>.\<close>

definition finalize ::
  "'w merge_service \<Rightarrow> Review \<Rightarrow> 'stats HomePage \<times> 'w \<Rightarrow> Review \<times> 'stats HomePage \<times> 'w" where
  "finalize getMergeResult r s =
     confirmFinalizeMerge getMergeResult (handleFinalizeMerge getMergeResult) r s"

subsection \<open>A service to run the workflow against\<close>

text \<open>
  Modelled from the spec: the remote service's merge-result endpoint, which is not part of
  this repository. The spec (4.3, 6): the request re-queries the merge result of a task
  with an apply flag, so that the service persists the merged content as a new document
  and returns its id and file name. The service holds the merge result of each finished
  task and the documents it has persisted.
\<close>

record Service =
  task_results :: "(string \<times> string) list"
  persisted :: "(int \<times> string \<times> string) list"

definition service_getMergeResult :: "Service merge_service" where
  "service_getMergeResult taskId applyResult w =
     (case map_of (task_results w) taskId of
        None \<Rightarrow>
          (MergeRejected \<lparr>response_status = Some 404, response_detail = Some ''Task not found'',
                          has_request = True,
                          err_message = Some ''Request failed with status code 404''\<rparr>, w)
      | Some content \<Rightarrow>
          if applyResult then
            (let new_id = int (length (persisted w)) + 1; fname = ''merged_'' @ taskId
             in (MergeResponse (Some \<lparr>data_id = Some new_id, data_filename = Some fname\<rparr>),
                 w\<lparr>persisted := persisted w @ [(new_id, fname, content)]\<rparr>))
          else
            (MergeResponse (Some \<lparr>data_id = None, data_filename = None\<rparr>), w))"


section \<open>Facts about lines, escaping and the highlighter\<close>

lemma split_lines_not_Nil: "split_lines s \<noteq> []"
  by (induction s) (auto split: list.splits)

lemma join_split_lines: "join_lines (split_lines s) = s"
proof (induction s)
  case Nil show ?case by simp
next
  case (Cons c cs)
  obtain l ls where sp: "split_lines cs = l # ls"
    using split_lines_not_Nil [of cs] by (cases "split_lines cs") auto
  show ?case using Cons sp by (cases ls) auto
qed

lemma split_lines_no_newline: "l \<in> set (split_lines s) \<Longrightarrow> newline \<notin> set l"
proof (induction s arbitrary: l)
  case Nil then show ?case by simp
next
  case (Cons c cs)
  obtain k ks where sp: "split_lines cs = k # ks"
    using split_lines_not_Nil [of cs] by (cases "split_lines cs") auto
  show ?case using Cons sp by (auto split: if_splits)
qed

lemma split_lines_append_no_newline:
  "newline \<notin> set x \<Longrightarrow> split_lines (x @ s) = (x @ hd (split_lines s)) # tl (split_lines s)"
  using split_lines_not_Nil [of s] by (induction x) (auto split: list.splits)

lemma split_lines_single: "newline \<notin> set x \<Longrightarrow> split_lines x = [x]"
  using split_lines_append_no_newline [of x "[]"] by simp

lemma split_join_lines:
  "xs \<noteq> [] \<Longrightarrow> \<forall>x\<in>set xs. newline \<notin> set x \<Longrightarrow> split_lines (join_lines xs) = xs"
proof (induction xs rule: join_lines.induct)
  case 1 then show ?case by simp
next
  case (2 x) then show ?case by (simp add: split_lines_single)
next
  case (3 x y ys)
  then show ?case by (simp add: split_lines_append_no_newline)
qed

lemma fold_pushHighlighted:
  "fold (pushHighlighted A) xs acc = acc @ map (\<lambda>ln. render (branchOf A ln) ln) xs"
  by (induction xs arbitrary: acc) (auto simp: pushHighlighted_def branchOf_def Let_def)

lemma fold_collectAdded:
  "fold collectAdded ls S = S \<union> (\<lambda>l. trim (line l)) ` set (filter (\<lambda>l. type l = added) ls)"
  by (induction ls arbitrary: S) (auto simp: collectAdded_def)

lemma addedLinesOf_spec: "addedLinesOf (diff_lines d) = added_set_spec d"
  by (simp add: addedLinesOf_def added_set_spec_def fold_collectAdded)

lemma highlight_classify:
  "highlightMergedContent m (Some d) = join_lines (map (\<lambda>(ln, h). render h ln) (classify m d))"
  by (simp add: highlightMergedContent_def classify_def fold_pushHighlighted Let_def comp_def escapeHtml_def)

lemma replaceAll_concat: "replaceAll c r s = concat (map (\<lambda>x. if x = c then r else [x]) s)"
  by (induction s) auto

lemma replaceAll_append: "replaceAll c r (s @ t) = replaceAll c r s @ replaceAll c r t"
  by (induction s) auto

lemma replaceAll_concat_map:
  "replaceAll c r (concat (map f s)) = concat (map (\<lambda>x. replaceAll c r (f x)) s)"
  by (induction s) (auto simp: replaceAll_append)

lemma escapeHtml_spec: "escapeHtml s = escape_spec s"
  unfolding escapeHtml_def escape_spec_def
  apply (subst replaceAll_concat [of "CHR ''&''"])
  apply (simp only: replaceAll_concat_map)
  apply (rule arg_cong [where f = concat])
  apply (rule map_cong [OF refl])
  apply (auto simp: entity_def dquote_def squote_def)
  done

lemma entity_no_special:
  "x \<in> set (entity c) \<Longrightarrow> x \<noteq> CHR ''<'' \<and> x \<noteq> CHR ''>'' \<and> x \<noteq> dquote \<and> x \<noteq> squote"
  by (auto simp: entity_def dquote_def squote_def split: if_splits)

lemma entity_newline: "newline \<in> set (entity c) \<Longrightarrow> c = newline"
  by (auto simp: entity_def newline_def split: if_splits)

lemma escape_spec_no_newline: "newline \<notin> set ln \<Longrightarrow> newline \<notin> set (escape_spec ln)"
  by (auto simp: escape_spec_def dest: entity_newline)

lemma render_no_newline: "newline \<notin> set ln \<Longrightarrow> newline \<notin> set (render h ln)"
  by (cases h) (auto simp: escapeHtml_spec added_open_def conflict_open_def span_close_def newline_def dquote_def dest: escape_spec_no_newline[unfolded newline_def])

lemma classify_nth:
  assumes "m \<noteq> []" "i < length (split_lines m)"
  shows "classify m d ! i = (split_lines m ! i, branchOf (addedLinesOf (diff_lines d)) (split_lines m ! i))"
  using assms by (simp add: classify_def)

lemma split_highlight:
  "m \<noteq> [] \<Longrightarrow> split_lines (highlightMergedContent m (Some d)) =
     map (\<lambda>ln. render (branchOf (addedLinesOf (diff_lines d)) ln) ln) (split_lines m)"
  by (simp add: highlightMergedContent_def fold_pushHighlighted split_join_lines
      split_lines_not_Nil render_no_newline split_lines_no_newline)

text \<open>The three renderings of a line differ, so the highlight of a line can be read off the
  returned text.\<close>

lemma render_determines_highlight: "render h ln = render h' ln \<Longrightarrow> h = h'"
proof -
  assume eq: "render h ln = render h' ln"
  then have "length (render h ln) = length (render h' ln)"
    by simp
  then show "h = h'"
    by (cases h; cases h')
       (simp_all add: added_open_def conflict_open_def span_close_def)
qed


section \<open>Facts about the poll loop\<close>

lemma attempts_reportProgress [simp]: "attempts (reportProgress onProgress res st) = attempts st"
  by (simp add: reportProgress_def split: option.splits)

lemma requests_reportProgress [simp]: "requests (reportProgress onProgress res st) = requests st"
  by (simp add: reportProgress_def split: option.splits)

lemma slept_reportProgress [simp]: "slept (reportProgress onProgress res st) = slept st"
  by (simp add: reportProgress_def split: option.splits)

declare poll.simps [simp del] poll_catch.simps [simp del]

lemma poll_never_completed_aux:
  fixes gts :: "string \<Rightarrow> nat \<Rightarrow> 'r reply" and cb :: "(int \<Rightarrow> string \<Rightarrow> 's \<Rightarrow> 's) option"
    and st :: "'s poll_state"
  shows "(\<forall>k res. gts tid k = Response res \<longrightarrow> status res \<noteq> ''completed'') \<longrightarrow>
      (fst (poll gts tid cb interval maxAttempts st) = Inl (Error max_attempts_message) \<and>
       requests (snd (poll gts tid cb interval maxAttempts st)) = requests st + nat (maxAttempts - attempts st) + 1 \<and>
       attempts (snd (poll gts tid cb interval maxAttempts st)) = max (attempts st) maxAttempts \<and>
       slept (snd (poll gts tid cb interval maxAttempts st)) = slept st @ replicate (nat (maxAttempts - attempts st)) interval)"
    and "(\<forall>k res. gts tid k = Response res \<longrightarrow> status res \<noteq> ''completed'') \<longrightarrow>
      (fst (poll_catch gts tid cb interval maxAttempts err st) = Inl (Error max_attempts_message) \<and>
       requests (snd (poll_catch gts tid cb interval maxAttempts err st)) = requests st + nat (maxAttempts - attempts st) \<and>
       attempts (snd (poll_catch gts tid cb interval maxAttempts err st)) = max (attempts st) maxAttempts \<and>
       slept (snd (poll_catch gts tid cb interval maxAttempts err st)) = slept st @ replicate (nat (maxAttempts - attempts st)) interval)"
proof (induction gts tid cb interval maxAttempts st and gts tid cb interval maxAttempts err st
    rule: poll_poll_catch.induct)
  case (1 getTaskStatus taskId onProgress interval maxAttempts st)
  show ?case
  proof (intro impI)
    assume nc: "\<forall>k res. getTaskStatus taskId k = Response res \<longrightarrow> status res \<noteq> ''completed''"
    show "fst (poll getTaskStatus taskId onProgress interval maxAttempts st) = Inl (Error max_attempts_message) \<and>
       requests (snd (poll getTaskStatus taskId onProgress interval maxAttempts st)) = requests st + nat (maxAttempts - attempts st) + 1 \<and>
       attempts (snd (poll getTaskStatus taskId onProgress interval maxAttempts st)) = max (attempts st) maxAttempts \<and>
       slept (snd (poll getTaskStatus taskId onProgress interval maxAttempts st)) = slept st @ replicate (nat (maxAttempts - attempts st)) interval"
    proof (cases "getTaskStatus taskId (requests st)")
      case RequestFailed
      with "1.IH"(1) nc show ?thesis by (subst (1 2 3 4) poll.simps) simp
    next
      case (Response res)
      with nc have ncs: "status res \<noteq> ''completed''" by blast
      show ?thesis
      proof (cases "status res = ''failed''")
        case True
        with "1.IH"(2) [OF Response refl ncs] nc Response show ?thesis
          by (subst (1 2 3 4) poll.simps) (simp add: Let_def)
      next
        case nf: False
        show ?thesis
        proof (cases "maxAttempts \<le> attempts st")
          case True
          with "1.IH"(3) [OF Response refl ncs nf] nc Response nf ncs show ?thesis
            by (subst (1 2 3 4) poll.simps) (simp add: Let_def)
        next
          case False
          then have k: "nat (maxAttempts - attempts st) = Suc (nat (maxAttempts - (attempts st + 1)))"
            by linarith
          from False "1.IH"(4) [OF Response refl ncs nf] nc Response nf ncs show ?thesis
            by (subst (1 2 3 4) poll.simps) (simp add: Let_def sleepAndCount_def k)
        qed
      qed
    qed
  qed
next
  case (2 getTaskStatus taskId onProgress interval maxAttempts err st)
  show ?case
  proof (cases "maxAttempts \<le> attempts st")
    case True
    then show ?thesis by (subst (1 2 3 4) poll_catch.simps) simp
  next
    case False
    then have k: "nat (maxAttempts - attempts st) = Suc (nat (maxAttempts - (attempts st + 1)))"
      by linarith
    from False 2 show ?thesis
      by (subst (1 2 3 4) poll_catch.simps) (simp add: sleepAndCount_def k)
  qed
qed

lemma poll_never_completed:
  fixes gts :: "string \<Rightarrow> nat \<Rightarrow> 'r reply" and cb :: "(int \<Rightarrow> string \<Rightarrow> 's \<Rightarrow> 's) option"
    and st :: "'s poll_state"
  assumes "\<forall>k res. gts tid k = Response res \<longrightarrow> status res \<noteq> ''completed''"
  shows "fst (poll gts tid cb interval maxAttempts st) = Inl (Error max_attempts_message) \<and>
       requests (snd (poll gts tid cb interval maxAttempts st))
         = requests st + nat (maxAttempts - attempts st) + 1 \<and>
       attempts (snd (poll gts tid cb interval maxAttempts st)) = max (attempts st) maxAttempts \<and>
       slept (snd (poll gts tid cb interval maxAttempts st))
         = slept st @ replicate (nat (maxAttempts - attempts st)) interval"
  using poll_never_completed_aux(1) [of gts tid cb interval maxAttempts st] assms
  by (rule mp)

text \<open>A response that reports the task completed ends the loop at once: the promise resolves
  with that response and no further request is issued.\<close>

lemma poll_completed:
  assumes "getTaskStatus taskId (requests st) = Response res" and "status res = ''completed''"
  shows "poll getTaskStatus taskId onProgress interval maxAttempts st
           = (Inr res, reportProgress onProgress res (st\<lparr>requests := requests st + 1\<rparr>))"
  using assms by (subst poll.simps) (simp add: Let_def)

text \<open>A response that reports the task failed, while the counter is below the limit, is
  polled again: the error thrown for it is handled by the \<^verbatim>\<open>catch\<close> block of the same call.\<close>

lemma poll_failed_retries:
  assumes "getTaskStatus taskId (requests st) = Response res" and "status res = ''failed''"
    and "attempts st < maxAttempts"
  shows "poll getTaskStatus taskId onProgress interval maxAttempts st
           = poll getTaskStatus taskId onProgress interval maxAttempts
               (sleepAndCount interval
                 (reportProgress onProgress res (st\<lparr>requests := requests st + 1\<rparr>)))"
  using assms by (subst poll.simps) (simp add: Let_def poll_catch.simps)


section \<open>Claims about the highlighter\<close>

text \<open>
  Claim C5, as amended. \<^verbatim>\<open>highlightMergedContent\<close> renders exactly the classification
  \<open>classify\<close>, for every content. For every non-empty merged content this classification is
  the one the spec describes: the lines of the content in order, each Added when its trimmed
  text is in the set of trimmed texts of the diff lines of kind Added, else Conflict when
  the raw line contains both \<^verbatim>\<open><<<\<close> and \<^verbatim>\<open>>>>\<close>, else None. Empty content is returned as it
  is by the guard: its one empty line carries no highlight.
\<close>

theorem classify_refines_spec:
  "highlightMergedContent m (Some d) = join_lines (map (\<lambda>(ln, h). render h ln) (classify m d)) \<and>
   (m \<noteq> [] \<longrightarrow> classify m d = classify_spec m d) \<and>
   classify [] d = [([], NoHighlight)]"
proof (intro conjI impI)
  show "highlightMergedContent m (Some d) = join_lines (map (\<lambda>(ln, h). render h ln) (classify m d))"
    by (rule highlight_classify)
next
  assume "m \<noteq> []"
  then show "classify m d = classify_spec m d"
    by (simp add: classify_def classify_spec_def branchOf_def classify_line_spec_def
        addedLinesOf_spec)
next
  show "classify [] d = [([], NoHighlight)]"
    by (simp add: classify_def)
qed

text \<open>The example of the spec: diff lines \<open>[{Added, foo}, {Unchanged, bar}]\<close> and merged
  content \<open>bar\<newline>foo\<newline>baz\<close> give \<open>[None, Added, None]\<close>.\<close>

theorem classify_refines_spec_witness:
  "[CHR ''b'', CHR ''a'', CHR ''r'', newline, CHR ''f'', CHR ''o'', CHR ''o'', newline,
    CHR ''b'', CHR ''a'', CHR ''z''] \<noteq> [] \<and>
   classify [CHR ''b'', CHR ''a'', CHR ''r'', newline, CHR ''f'', CHR ''o'', CHR ''o'', newline,
    CHR ''b'', CHR ''a'', CHR ''z'']
     \<lparr>diff_lines = [\<lparr>type = added, line = ''foo''\<rparr>, \<lparr>type = unchanged, line = ''bar''\<rparr>],
      stats = (), ai_summary = ''''\<rparr>
   = [(''bar'', NoHighlight), (''foo'', Added), (''baz'', NoHighlight)]"
  using classify_refines_spec [of
      "[CHR ''b'', CHR ''a'', CHR ''r'', newline, CHR ''f'', CHR ''o'', CHR ''o'', newline,
        CHR ''b'', CHR ''a'', CHR ''z'']"
      "\<lparr>diff_lines = [\<lparr>type = added, line = ''foo''\<rparr>, \<lparr>type = unchanged, line = ''bar''\<rparr>],
        stats = (), ai_summary = ''''\<rparr>"]
  by (simp add: classify_spec_def classify_line_spec_def added_set_spec_def trim_def
      isWhiteSpace_def newline_def)

text \<open>
  Claim C5 as stated fails on empty content when the diff holds an added blank line: the
  spec's classification makes the one empty line Added, while the function returns the empty
  string, which is that line without the span that an Added line gets.
\<close>

theorem classify_empty_content_counterexample:
  "classify_spec [] \<lparr>diff_lines = [\<lparr>type = added, line = []\<rparr>], stats = (), ai_summary = []\<rparr>
     = [([], Added)] \<and>
   classify [] \<lparr>diff_lines = [\<lparr>type = added, line = []\<rparr>], stats = (), ai_summary = []\<rparr>
     = [([], NoHighlight)] \<and>
   highlightMergedContent [] (Some \<lparr>diff_lines = [\<lparr>type = added, line = []\<rparr>], stats = (), ai_summary = []\<rparr>)
     = [] \<and>
   render Added [] = added_open @ span_close \<and>
   render Added [] \<noteq> []"
  by (simp add: classify_spec_def classify_line_spec_def added_set_spec_def trim_def
      classify_def highlightMergedContent_def escapeHtml_def added_open_def)

text \<open>
  Claim C4, as amended. A line of the merged content that contains both \<^verbatim>\<open><<<\<close> and \<^verbatim>\<open>>>>\<close>
  and whose trimmed text is in the added set is classified Added, and is rendered in the
  \<^verbatim>\<open>added-content\<close> span: the Added test comes first.
\<close>

theorem marked_added_line_is_Added:
  assumes "i < length (split_lines m)"
    and "includes_str (split_lines m ! i) ''<<<''"
    and "includes_str (split_lines m ! i) ''>>>''"
    and "trim (split_lines m ! i) \<in> added_set_spec d"
  shows "classify m d ! i = (split_lines m ! i, Added) \<and>
         split_lines (highlightMergedContent m (Some d)) ! i =
           added_open @ escapeHtml (split_lines m ! i) @ span_close"
proof -
  have ne: "m \<noteq> []"
  proof
    assume "m = []"
    with assms(1,2) show False by simp
  qed
  have br: "branchOf (addedLinesOf (diff_lines d)) (split_lines m ! i) = Added"
    using assms(4) by (simp add: branchOf_def addedLinesOf_spec)
  show ?thesis
    using assms(1) ne br by (simp add: classify_nth split_highlight)
qed

theorem marked_added_line_is_Added_witness:
  "(1::nat) < length (split_lines (CHR ''x'' # newline # ''<<<a>>>'')) \<and>
   includes_str (split_lines (CHR ''x'' # newline # ''<<<a>>>'') ! 1) ''<<<'' \<and>
   includes_str (split_lines (CHR ''x'' # newline # ''<<<a>>>'') ! 1) ''>>>'' \<and>
   trim (split_lines (CHR ''x'' # newline # ''<<<a>>>'') ! 1)
     \<in> added_set_spec \<lparr>diff_lines = [\<lparr>type = added, line = '' <<<a>>>''\<rparr>], stats = (), ai_summary = []\<rparr> \<and>
   classify (CHR ''x'' # newline # ''<<<a>>>'')
     \<lparr>diff_lines = [\<lparr>type = added, line = '' <<<a>>>''\<rparr>], stats = (), ai_summary = []\<rparr> ! 1
     = (''<<<a>>>'', Added)"
  using marked_added_line_is_Added [of 1 "CHR ''x'' # newline # ''<<<a>>>''"
      "\<lparr>diff_lines = [\<lparr>type = added, line = '' <<<a>>>''\<rparr>], stats = (), ai_summary = []\<rparr>"]
  by (simp add: newline_def added_set_spec_def trim_def isWhiteSpace_def)

text \<open>
  Claim C4 as stated fails: the line \<^verbatim>\<open><<<a>>>\<close> contains both markers and is in the added
  set, and it is classified Added, not Conflict.
\<close>

theorem conflict_precedence_counterexample:
  "includes_str ''<<<a>>>'' ''<<<'' \<and> includes_str ''<<<a>>>'' ''>>>'' \<and>
   trim ''<<<a>>>''
     \<in> added_set_spec \<lparr>diff_lines = [\<lparr>type = added, line = ''<<<a>>>''\<rparr>], stats = (), ai_summary = []\<rparr> \<and>
   classify ''<<<a>>>'' \<lparr>diff_lines = [\<lparr>type = added, line = ''<<<a>>>''\<rparr>], stats = (), ai_summary = []\<rparr>
     = [(''<<<a>>>'', Added)] \<and>
   Added \<noteq> Conflict \<and>
   highlightMergedContent ''<<<a>>>''
     (Some \<lparr>diff_lines = [\<lparr>type = added, line = ''<<<a>>>''\<rparr>], stats = (), ai_summary = []\<rparr>)
     = added_open @ ''&lt;&lt;&lt;a&gt;&gt;&gt;'' @ span_close"
  by (simp add: classify_def branchOf_def addedLinesOf_def collectAdded_def added_set_spec_def
      trim_def isWhiteSpace_def newline_def highlightMergedContent_def pushHighlighted_def
      escapeHtml_def dquote_def squote_def)

text \<open>
  Claim C6. The classification has exactly one entry for each line of the merged content,
  in the order of the lines, and the returned text has one line for each of them: its lines
  are the renderings of the entries, in order. The function is defined on its two arguments
  alone, as the source reads nothing but its parameters and its local variables, so equal
  arguments give equal results.
\<close>

theorem classify_one_per_line:
  "map fst (classify m d) = split_lines m \<and>
   length (classify m d) = length (split_lines m) \<and>
   split_lines (highlightMergedContent m (Some d)) = map (\<lambda>(ln, h). render h ln) (classify m d) \<and>
   length (split_lines (highlightMergedContent m (Some d))) = length (split_lines m)"
proof -
  have fst_eq: "map fst (classify m d) = split_lines m"
    by (simp add: classify_def comp_def)
  have lines: "split_lines (highlightMergedContent m (Some d))
      = map (\<lambda>(ln, h). render h ln) (classify m d)"
  proof (cases "m = []")
    case True
    then show ?thesis
      by (simp add: highlightMergedContent_def classify_def escapeHtml_def)
  next
    case False
    then show ?thesis
      by (simp add: split_highlight classify_def comp_def)
  qed
  have len: "length (classify m d) = length (split_lines m)"
    using fst_eq by (metis length_map)
  show ?thesis
    using fst_eq lines len by simp
qed

text \<open>
  Claim C10, as amended. For non-empty merged content and a diff result that is present, the
  lines of the returned string correspond one to one to the lines of the content, and each
  is the escaped source line, alone or inside one of the two spans. The escaped line is the
  source line with each of \<^verbatim>\<open>&\<close>, \<^verbatim>\<open><\<close>, \<^verbatim>\<open>>\<close>, the double quote and the single quote
  replaced by its entity
  (\<open>escape_spec\<close>), which is what the five replacements of \<^verbatim>\<open>escapeHtml\<close> compute; it holds
  none of \<^verbatim>\<open><\<close>, \<^verbatim>\<open>>\<close>, double quote and single quote.
\<close>

theorem highlighted_lines_are_escaped:
  assumes "m \<noteq> []"
  shows "list_all2
           (\<lambda>ln out. out = escape_spec ln \<or> out = added_open @ escape_spec ln @ span_close
                      \<or> out = conflict_open @ escape_spec ln @ span_close)
           (split_lines m) (split_lines (highlightMergedContent m (Some d))) \<and>
         escapeHtml ln = escape_spec ln \<and>
         set (escape_spec ln) \<inter> {CHR ''<'', CHR ''>'', dquote, squote} = {}"
proof (intro conjI)
  have "list_all2
      (\<lambda>ln out. out = escape_spec ln \<or> out = added_open @ escape_spec ln @ span_close
                 \<or> out = conflict_open @ escape_spec ln @ span_close)
      xs (map (\<lambda>ln. render (branchOf A ln) ln) xs)" for xs :: "string list" and A
  proof (induction xs)
    case Nil
    show ?case by simp
  next
    case (Cons x xs)
    then show ?case by (cases "branchOf A x") (simp_all add: escapeHtml_spec)
  qed
  then show "list_all2
      (\<lambda>ln out. out = escape_spec ln \<or> out = added_open @ escape_spec ln @ span_close
                 \<or> out = conflict_open @ escape_spec ln @ span_close)
      (split_lines m) (split_lines (highlightMergedContent m (Some d)))"
    using assms by (simp add: split_highlight)
next
  show "escapeHtml ln = escape_spec ln"
    by (rule escapeHtml_spec)
next
  show "set (escape_spec ln) \<inter> {CHR ''<'', CHR ''>'', dquote, squote} = {}"
    using entity_no_special by (fastforce simp: escape_spec_def)
qed

theorem highlighted_lines_are_escaped_witness:
  "''a<b'' \<noteq> [] \<and>
   list_all2
     (\<lambda>ln out. out = escape_spec ln \<or> out = added_open @ escape_spec ln @ span_close
                \<or> out = conflict_open @ escape_spec ln @ span_close)
     [''a<b''] [added_open @ ''a&lt;b'' @ span_close] \<and>
   escape_spec (CHR ''&'' # dquote # squote # ''<>'') = ''&amp;&quot;&#039;&lt;&gt;''"
proof -
  have ne: "''a<b'' \<noteq> []"
    by simp
  have lines: "split_lines ''a<b'' = [''a<b'']"
    by (simp add: newline_def)
  have out: "split_lines (highlightMergedContent ''a<b''
      (Some \<lparr>diff_lines = [\<lparr>type = added, line = ''a<b''\<rparr>], stats = (), ai_summary = []\<rparr>))
      = [added_open @ ''a&lt;b'' @ span_close]"
    by (simp add: highlightMergedContent_def pushHighlighted_def addedLinesOf_def
        collectAdded_def trim_def isWhiteSpace_def newline_def escapeHtml_def
        dquote_def squote_def added_open_def span_close_def)
  have esc: "escapeHtml (CHR ''&'' # dquote # squote # ''<>'') = ''&amp;&quot;&#039;&lt;&gt;''"
    by (simp add: escapeHtml_def dquote_def squote_def)
  note inst = highlighted_lines_are_escaped [OF ne,
      of "\<lparr>diff_lines = [\<lparr>type = added, line = ''a<b''\<rparr>], stats = (), ai_summary = []\<rparr>"
         "CHR ''&'' # dquote # squote # ''<>''"]
  have all2: "list_all2
     (\<lambda>ln out. out = escape_spec ln \<or> out = added_open @ escape_spec ln @ span_close
                \<or> out = conflict_open @ escape_spec ln @ span_close)
     [''a<b''] [added_open @ ''a&lt;b'' @ span_close]"
    using inst [THEN conjunct1] unfolding lines out .
  have spec: "escape_spec (CHR ''&'' # dquote # squote # ''<>'') = ''&amp;&quot;&#039;&lt;&gt;''"
    using esc unfolding inst [THEN conjunct2, THEN conjunct1] .
  show ?thesis
    using ne all2 spec by (intro conjI)
qed

text \<open>
  Claim C10 as stated fails when the diff result is missing: the guard
  \<^verbatim>\<open>!mergedContent || !diffResult\<close> then returns the content as it is, so the text \<^verbatim>\<open><b>\<close>
  comes back with its \<^verbatim>\<open><\<close> and \<^verbatim>\<open>>\<close> in place, not as \<^verbatim>\<open>&lt;b&gt;\<close>.
\<close>

theorem missing_diff_result_counterexample:
  "''<b>'' \<noteq> [] \<and>
   highlightMergedContent ''<b>'' (None :: unit DiffResult option) = ''<b>'' \<and>
   escapeHtml ''<b>'' = ''&lt;b&gt;'' \<and>
   highlightMergedContent ''<b>'' (None :: unit DiffResult option) \<noteq> ''&lt;b&gt;'' \<and>
   CHR ''<'' \<in> set (highlightMergedContent ''<b>'' (None :: unit DiffResult option))"
  by (simp add: highlightMergedContent_def escapeHtml_def dquote_def squote_def)


section \<open>Claims about the poll loop\<close>

text \<open>
  Claim C1 does not hold of the code. The \<^verbatim>\<open>throw\<close> for a failed status sits inside the
  \<^verbatim>\<open>try\<close> block, so the \<^verbatim>\<open>catch\<close> block of the same call takes it and polls again. For a task
  that the service reports as failed with the reason \<open>x\<close>, and the default limit of 120, the
  loop issues 121 status requests and then rejects with the message of the attempt limit;
  the reason \<open>x\<close> is lost.
\<close>

theorem failed_status_is_retried:
  "fst (pollTaskUntilComplete failing_task ''task-1'' None 1000 120 ())
     = Inl (Error ''Maximum polling attempts reached'') \<and>
   requests (snd (pollTaskUntilComplete failing_task ''task-1'' None 1000 120 ())) = 121 \<and>
   slept (snd (pollTaskUntilComplete failing_task ''task-1'' None 1000 120 ()))
     = replicate 120 1000"
proof -
  have nc: "\<forall>k res. failing_task ''task-1'' k = Response res \<longrightarrow> status res \<noteq> ''completed''"
    by (auto simp: failing_task_def)
  show ?thesis
    using poll_never_completed [of failing_task "''task-1''" None 1000 120
        "\<lparr>attempts = 0, requests = 0, slept = [], ui = ()\<rparr>", OF nc]
    by (simp add: pollTaskUntilComplete_def max_attempts_message_def)
qed

text \<open>
  Claim C3 does not hold of the code: the count is off by one. The counter \<^verbatim>\<open>attempts\<close> is
  compared with \<^verbatim>\<open>maxAttempts\<close> after the request and incremented after the comparison, so
  a task that stays running is polled \<^verbatim>\<open>maxAttempts + 1\<close> times before the loop rejects with
  the message of the attempt limit: 121 requests for the default limit of 120.
\<close>

theorem running_task_polled_once_more:
  "fst (pollTaskUntilComplete running_task ''task-1'' None 1000 120 ())
     = Inl (Error ''Maximum polling attempts reached'') \<and>
   requests (snd (pollTaskUntilComplete running_task ''task-1'' None 1000 120 ())) = 121 \<and>
   slept (snd (pollTaskUntilComplete running_task ''task-1'' None 1000 120 ()))
     = replicate 120 1000"
proof -
  have nc: "\<forall>k res. running_task ''task-1'' k = Response res \<longrightarrow> status res \<noteq> ''completed''"
    by (auto simp: running_task_def)
  show ?thesis
    using poll_never_completed [of running_task "''task-1''" None 1000 120
        "\<lparr>attempts = 0, requests = 0, slept = [], ui = ()\<rparr>", OF nc]
    by (simp add: pollTaskUntilComplete_def max_attempts_message_def)
qed

text \<open>
  Claim C7. A status request that fails, while the counter is below the limit, does not end
  the loop: the call continues as the same loop after one sleep of \<open>interval\<close> with the
  counter \<^verbatim>\<open>attempts\<close> one higher. A response that reports the task neither completed nor
  failed continues in the same way, on the same counter and with the same delay. So when
  every request either fails or finds the task in progress, in any mixture, the loop rejects
  with the message of the attempt limit once that one counter has reached \<^verbatim>\<open>maxAttempts\<close>,
  having slept \<open>interval\<close> before each retry.
\<close>

theorem request_failure_draws_on_shared_budget:
  "(getTaskStatus taskId (requests st) = RequestFailed \<and> attempts st < maxAttempts \<longrightarrow>
      poll getTaskStatus taskId onProgress interval maxAttempts st
        = poll getTaskStatus taskId onProgress interval maxAttempts
            (sleepAndCount interval (st\<lparr>requests := requests st + 1\<rparr>))) \<and>
   (getTaskStatus taskId (requests st) = Response res \<and> status res \<noteq> ''completed'' \<and>
    status res \<noteq> ''failed'' \<and> attempts st < maxAttempts \<longrightarrow>
      poll getTaskStatus taskId onProgress interval maxAttempts st
        = poll getTaskStatus taskId onProgress interval maxAttempts
            (sleepAndCount interval
              (reportProgress onProgress res (st\<lparr>requests := requests st + 1\<rparr>)))) \<and>
   ((\<forall>k. getTaskStatus taskId k = RequestFailed \<or>
          (\<exists>r. getTaskStatus taskId k = Response r \<and> status r \<noteq> ''completed'' \<and>
               status r \<noteq> ''failed'')) \<longrightarrow>
      fst (pollTaskUntilComplete getTaskStatus taskId onProgress interval maxAttempts u)
        = Inl (Error max_attempts_message) \<and>
      attempts (snd (pollTaskUntilComplete getTaskStatus taskId onProgress interval maxAttempts u))
        = max 0 maxAttempts \<and>
      requests (snd (pollTaskUntilComplete getTaskStatus taskId onProgress interval maxAttempts u))
        = nat maxAttempts + 1 \<and>
      slept (snd (pollTaskUntilComplete getTaskStatus taskId onProgress interval maxAttempts u))
        = replicate (nat maxAttempts) interval)"
proof (intro conjI impI)
  assume "getTaskStatus taskId (requests st) = RequestFailed \<and> attempts st < maxAttempts"
  then show "poll getTaskStatus taskId onProgress interval maxAttempts st
        = poll getTaskStatus taskId onProgress interval maxAttempts
            (sleepAndCount interval (st\<lparr>requests := requests st + 1\<rparr>))"
    by (subst poll.simps) (simp add: poll_catch.simps)
next
  assume "getTaskStatus taskId (requests st) = Response res \<and> status res \<noteq> ''completed'' \<and>
    status res \<noteq> ''failed'' \<and> attempts st < maxAttempts"
  then show "poll getTaskStatus taskId onProgress interval maxAttempts st
        = poll getTaskStatus taskId onProgress interval maxAttempts
            (sleepAndCount interval
              (reportProgress onProgress res (st\<lparr>requests := requests st + 1\<rparr>)))"
    by (subst poll.simps) (simp add: Let_def)
next
  assume mix: "\<forall>k. getTaskStatus taskId k = RequestFailed \<or>
          (\<exists>r. getTaskStatus taskId k = Response r \<and> status r \<noteq> ''completed'' \<and>
               status r \<noteq> ''failed'')"
  have nc: "\<forall>k res. getTaskStatus taskId k = Response res \<longrightarrow> status res \<noteq> ''completed''"
  proof (intro allI impI)
    fix k res
    assume "getTaskStatus taskId k = Response res"
    with mix [rule_format, of k] show "status res \<noteq> ''completed''" by auto
  qed
  note run = poll_never_completed [of getTaskStatus taskId onProgress interval maxAttempts
      "\<lparr>attempts = 0, requests = 0, slept = [], ui = u\<rparr>", OF nc]
  show "fst (pollTaskUntilComplete getTaskStatus taskId onProgress interval maxAttempts u)
        = Inl (Error max_attempts_message)"
    using run by (simp add: pollTaskUntilComplete_def)
  show "attempts (snd (pollTaskUntilComplete getTaskStatus taskId onProgress interval maxAttempts u))
        = max 0 maxAttempts"
    using run by (simp add: pollTaskUntilComplete_def)
  show "requests (snd (pollTaskUntilComplete getTaskStatus taskId onProgress interval maxAttempts u))
        = nat maxAttempts + 1"
    using run by (simp add: pollTaskUntilComplete_def)
  show "slept (snd (pollTaskUntilComplete getTaskStatus taskId onProgress interval maxAttempts u))
        = replicate (nat maxAttempts) interval"
    using run by (simp add: pollTaskUntilComplete_def)
qed

theorem request_failure_draws_on_shared_budget_witness:
  "flaky_task ''task-1'' 0 = RequestFailed \<and> (0::int) < 3 \<and>
   poll flaky_task ''task-1'' None 1000 3 \<lparr>attempts = 0, requests = 0, slept = [], ui = ()\<rparr>
     = poll flaky_task ''task-1'' None 1000 3
         \<lparr>attempts = 1, requests = 1, slept = [1000], ui = ()\<rparr> \<and>
   fst (pollTaskUntilComplete flaky_task ''task-1'' None 1000 3 ())
     = Inl (Error ''Maximum polling attempts reached'') \<and>
   requests (snd (pollTaskUntilComplete flaky_task ''task-1'' None 1000 3 ())) = 4 \<and>
   slept (snd (pollTaskUntilComplete flaky_task ''task-1'' None 1000 3 ())) = [1000, 1000, 1000]"
proof -
  have mix: "\<forall>k. flaky_task ''task-1'' k = RequestFailed \<or>
      (\<exists>r. flaky_task ''task-1'' k = Response r \<and> status r \<noteq> ''completed'' \<and>
           status r \<noteq> ''failed'')"
    by (simp add: flaky_task_def)
  have first: "flaky_task ''task-1'' 0 = RequestFailed"
    by (simp add: flaky_task_def)
  note inst = request_failure_draws_on_shared_budget [of flaky_task "''task-1''"
      "\<lparr>attempts = 0, requests = 0, slept = [], ui = ()\<rparr>" 3 None 1000
      "\<lparr>status = ''pending'', progress = None, message = None, result = None, error = None\<rparr>"
      "()"]
  have step: "poll flaky_task ''task-1'' None 1000 3 \<lparr>attempts = 0, requests = 0, slept = [], ui = ()\<rparr>
     = poll flaky_task ''task-1'' None 1000 3
         \<lparr>attempts = 1, requests = 1, slept = [1000], ui = ()\<rparr>"
    using inst [THEN conjunct1] first by (simp add: sleepAndCount_def)
  have total: "fst (pollTaskUntilComplete flaky_task ''task-1'' None 1000 3 ())
       = Inl (Error ''Maximum polling attempts reached'') \<and>
     requests (snd (pollTaskUntilComplete flaky_task ''task-1'' None 1000 3 ())) = 4 \<and>
     slept (snd (pollTaskUntilComplete flaky_task ''task-1'' None 1000 3 ())) = [1000, 1000, 1000]"
    using inst [THEN conjunct2, THEN conjunct2] mix
    by (simp add: max_attempts_message_def numeral_3_eq_3)
  show ?thesis
    using first step total by simp
qed


section \<open>Claims about the workflow\<close>

text \<open>
  Claim C8. A goal with the custom strategy and no custom rule, and a goal with no priority,
  is rejected by \<^verbatim>\<open>handleSubmit\<close>: the component shows the validation message, its goal
  stays as it is, and whatever callback \<^verbatim>\<open>onGoalSet\<close> is, the state outside the component
  (the page and the service behind it) is unchanged, so the callback has not run and
  nothing has been sent.
\<close>

theorem invalid_goal_is_rejected:
  assumes "(strategy (goal gs) = custom \<and>
             (customRules (goal gs) = None \<or> customRules (goal gs) = Some [])) \<or>
           priorities (goal gs) = None \<or> priorities (goal gs) = Some []"
  shows "snd (handleSubmit onGoalSet gs outside) = outside \<and>
         goal (fst (handleSubmit onGoalSet gs outside)) = goal gs \<and>
         gs_error (fst (handleSubmit onGoalSet gs outside)) \<in>
           {Some ''Please add at least one custom rule when using the custom strategy'',
            Some ''Please select at least one priority''}"
  using assms by (auto simp: handleSubmit_def missing_or_empty_def split: option.splits)

theorem invalid_goal_is_rejected_witness:
  "handleSubmit handleGoalSet
     \<lparr>goal = \<lparr>strategy = custom, customRules = Some [], priorities = Some [accuracy],
              preserveSections = None, goal_notes = None\<rparr>,
      customRule = [], sectionToPreserve = [], gs_activeStep = 3, gs_error = None\<rparr>
     \<lparr>activeStep = 0, documents = [], mergeGoal = None,
      diffResult = (None :: unit DiffResult option), mergedContent = [], hp_error = None,
      success = None, loading = False, loadingMessage = [], loadingProgress = None,
      isComplete = False, mergeTaskId = None\<rparr>
   = (\<lparr>goal = \<lparr>strategy = custom, customRules = Some [], priorities = Some [accuracy],
               preserveSections = None, goal_notes = None\<rparr>,
       customRule = [], sectionToPreserve = [], gs_activeStep = 3,
       gs_error = Some ''Please add at least one custom rule when using the custom strategy''\<rparr>,
      \<lparr>activeStep = 0, documents = [], mergeGoal = None, diffResult = None, mergedContent = [],
       hp_error = None, success = None, loading = False, loadingMessage = [],
       loadingProgress = None, isComplete = False, mergeTaskId = None\<rparr>) \<and>
   snd (handleSubmit handleGoalSet
     \<lparr>goal = \<lparr>strategy = latest, customRules = Some [], priorities = Some [],
              preserveSections = None, goal_notes = None\<rparr>,
      customRule = [], sectionToPreserve = [], gs_activeStep = 3, gs_error = None\<rparr>
     \<lparr>activeStep = 0, documents = [], mergeGoal = None,
      diffResult = (None :: unit DiffResult option), mergedContent = [], hp_error = None,
      success = None, loading = False, loadingMessage = [], loadingProgress = None,
      isComplete = False, mergeTaskId = None\<rparr>)
   = \<lparr>activeStep = 0, documents = [], mergeGoal = None, diffResult = None, mergedContent = [],
      hp_error = None, success = None, loading = False, loadingMessage = [],
      loadingProgress = None, isComplete = False, mergeTaskId = None\<rparr>"
proof -
  have a: "snd (handleSubmit handleGoalSet
     \<lparr>goal = \<lparr>strategy = latest, customRules = Some [], priorities = Some [],
              preserveSections = None, goal_notes = None\<rparr>,
      customRule = [], sectionToPreserve = [], gs_activeStep = 3, gs_error = None\<rparr>
     \<lparr>activeStep = 0, documents = [], mergeGoal = None,
      diffResult = (None :: unit DiffResult option), mergedContent = [], hp_error = None,
      success = None, loading = False, loadingMessage = [], loadingProgress = None,
      isComplete = False, mergeTaskId = None\<rparr>)
   = \<lparr>activeStep = 0, documents = [], mergeGoal = None, diffResult = None, mergedContent = [],
      hp_error = None, success = None, loading = False, loadingMessage = [],
      loadingProgress = None, isComplete = False, mergeTaskId = None\<rparr>"
    using invalid_goal_is_rejected [of
        "\<lparr>goal = \<lparr>strategy = latest, customRules = Some [], priorities = Some [],
              preserveSections = None, goal_notes = None\<rparr>,
          customRule = [], sectionToPreserve = [], gs_activeStep = 3, gs_error = None\<rparr>"
        handleGoalSet
        "\<lparr>activeStep = 0, documents = [], mergeGoal = None,
          diffResult = (None :: unit DiffResult option), mergedContent = [], hp_error = None,
          success = None, loading = False, loadingMessage = [], loadingProgress = None,
          isComplete = False, mergeTaskId = None\<rparr>"]
    by simp
  have b: "handleSubmit handleGoalSet
     \<lparr>goal = \<lparr>strategy = custom, customRules = Some [], priorities = Some [accuracy],
              preserveSections = None, goal_notes = None\<rparr>,
      customRule = [], sectionToPreserve = [], gs_activeStep = 3, gs_error = None\<rparr>
     \<lparr>activeStep = 0, documents = [], mergeGoal = None,
      diffResult = (None :: unit DiffResult option), mergedContent = [], hp_error = None,
      success = None, loading = False, loadingMessage = [], loadingProgress = None,
      isComplete = False, mergeTaskId = None\<rparr>
   = (\<lparr>goal = \<lparr>strategy = custom, customRules = Some [], priorities = Some [accuracy],
               preserveSections = None, goal_notes = None\<rparr>,
       customRule = [], sectionToPreserve = [], gs_activeStep = 3,
       gs_error = Some ''Please add at least one custom rule when using the custom strategy''\<rparr>,
      \<lparr>activeStep = 0, documents = [], mergeGoal = None, diffResult = None, mergedContent = [],
       hp_error = None, success = None, loading = False, loadingMessage = [],
       loadingProgress = None, isComplete = False, mergeTaskId = None\<rparr>)"
    by (simp add: handleSubmit_def missing_or_empty_def)
  show ?thesis
    using a b by (intro conjI)
qed

text \<open>
  Claim C9. \<^verbatim>\<open>handleReset\<close> from the complete state gives a session at step 0 (goal
  setting) with no documents, no goal, no diff result, no task id, empty merged content, and
  the complete flag off.
\<close>

theorem reset_clears_session:
  assumes "isComplete hp"
  shows "activeStep (handleReset hp) = 0 \<and>
         documents (handleReset hp) = [] \<and>
         mergeGoal (handleReset hp) = None \<and>
         diffResult (handleReset hp) = None \<and>
         mergeTaskId (handleReset hp) = None \<and>
         mergedContent (handleReset hp) = [] \<and>
         isComplete (handleReset hp) = False"
  by (simp add: handleReset_def)

theorem reset_clears_session_witness:
  "isComplete
     \<lparr>activeStep = 3,
      documents = [\<lparr>doc_id = Some 1, filename = ''a.txt'', uploaded = Some True\<rparr>,
                   \<lparr>doc_id = Some 2, filename = ''b.txt'', uploaded = Some True\<rparr>],
      mergeGoal = Some \<lparr>strategy = latest, customRules = Some [], priorities = Some [accuracy],
                        preserveSections = None, goal_notes = None\<rparr>,
      diffResult = Some \<lparr>diff_lines = [\<lparr>type = added, line = ''foo''\<rparr>], stats = (),
                         ai_summary = ''one line added''\<rparr>,
      mergedContent = ''foo'', hp_error = None, success = Some ''saved'', loading = False,
      loadingMessage = [], loadingProgress = None, isComplete = True,
      mergeTaskId = Some ''t1''\<rparr> \<and>
   handleReset
     \<lparr>activeStep = 3,
      documents = [\<lparr>doc_id = Some 1, filename = ''a.txt'', uploaded = Some True\<rparr>,
                   \<lparr>doc_id = Some 2, filename = ''b.txt'', uploaded = Some True\<rparr>],
      mergeGoal = Some \<lparr>strategy = latest, customRules = Some [], priorities = Some [accuracy],
                        preserveSections = None, goal_notes = None\<rparr>,
      diffResult = Some \<lparr>diff_lines = [\<lparr>type = added, line = ''foo''\<rparr>], stats = (),
                         ai_summary = ''one line added''\<rparr>,
      mergedContent = ''foo'', hp_error = None, success = Some ''saved'', loading = False,
      loadingMessage = [], loadingProgress = None, isComplete = True,
      mergeTaskId = Some ''t1''\<rparr>
   = \<lparr>activeStep = 0, documents = [], mergeGoal = None, diffResult = None, mergedContent = [],
      hp_error = None, success = Some ''saved'', loading = False, loadingMessage = [],
      loadingProgress = None, isComplete = False, mergeTaskId = None\<rparr>"
  using reset_clears_session [of
      "\<lparr>activeStep = 3,
        documents = [\<lparr>doc_id = Some 1, filename = ''a.txt'', uploaded = Some True\<rparr>,
                     \<lparr>doc_id = Some 2, filename = ''b.txt'', uploaded = Some True\<rparr>],
        mergeGoal = Some \<lparr>strategy = latest, customRules = Some [], priorities = Some [accuracy],
                          preserveSections = None, goal_notes = None\<rparr>,
        diffResult = Some \<lparr>diff_lines = [\<lparr>type = added, line = ''foo''\<rparr>], stats = (),
                           ai_summary = ''one line added''\<rparr>,
        mergedContent = ''foo'', hp_error = None, success = Some ''saved'', loading = False,
        loadingMessage = [], loadingProgress = None, isComplete = True,
        mergeTaskId = Some ''t1''\<rparr>"]
  by (simp add: handleReset_def)

text \<open>
  Claim C2, as amended. Finalizing sends the service the task id and the apply flag and
  nothing else. Whatever the service is, the state of the page and of the service after
  \<open>finalize\<close> does not depend on the content the review step holds, edited or not; and with
  no task id on the page (the page never sets one), the service has received exactly the one
  request for the review step's task, or none when the review step has no task.
\<close>

theorem finalize_does_not_send_content:
  "snd (finalize getMergeResult (r\<lparr>finalContent := c, editedContent := e\<rparr>) (hp, w))
     = snd (finalize getMergeResult r (hp, w)) \<and>
   snd (snd (finalize getMergeResult r (hp\<lparr>mergeTaskId := None\<rparr>, w)))
     = (if truthy_string (rv_mergeTaskId r)
        then snd (getMergeResult (the (rv_mergeTaskId r)) True w) else w)"
proof
  show "snd (finalize getMergeResult (r\<lparr>finalContent := c, editedContent := e\<rparr>) (hp, w))
     = snd (finalize getMergeResult r (hp, w))"
    by (simp add: finalize_def confirmFinalizeMerge_def handleFinalizeMerge_def Let_def
        split: prod.splits merge_reply.splits option.splits)
next
  show "snd (snd (finalize getMergeResult r (hp\<lparr>mergeTaskId := None\<rparr>, w)))
     = (if truthy_string (rv_mergeTaskId r)
        then snd (getMergeResult (the (rv_mergeTaskId r)) True w) else w)"
    by (simp add: finalize_def confirmFinalizeMerge_def handleFinalizeMerge_def Let_def
        truthy_string_def[of None] split: prod.splits merge_reply.splits option.splits)
qed

text \<open>
  Claim C2 as stated fails. The task \<open>t1\<close> has the merge result \<open>orig\<close>; the user opens the
  editor, changes the text to \<open>edited\<close> and saves, so the review step shows \<open>edited\<close>; then
  the user finalizes. The one document the service has persisted holds \<open>orig\<close>.
\<close>

theorem finalize_persists_task_result_counterexample:
  "finalContent (handleEditToggle (handleContentChange ''edited'' (handleEditToggle
      \<lparr>finalContent = ''orig'', isEditing = False, editedContent = ''orig'',
       rv_filename = ''Merged_a.txt'', rv_loading = False, rv_loadingMessage = [],
       rv_loadingProgress = None, rv_error = None, showConfirmDialog = True,
       rv_mergeTaskId = Some ''t1''\<rparr>))) = ''edited'' \<and>
   persisted (snd (snd (finalize service_getMergeResult
     (handleEditToggle (handleContentChange ''edited'' (handleEditToggle
        \<lparr>finalContent = ''orig'', isEditing = False, editedContent = ''orig'',
         rv_filename = ''Merged_a.txt'', rv_loading = False, rv_loadingMessage = [],
         rv_loadingProgress = None, rv_error = None, showConfirmDialog = True,
         rv_mergeTaskId = Some ''t1''\<rparr>)))
     (\<lparr>activeStep = 3, documents = [], mergeGoal = None,
       diffResult = (None :: unit DiffResult option), mergedContent = [], hp_error = None,
       success = None, loading = False, loadingMessage = [], loadingProgress = None,
       isComplete = False, mergeTaskId = None\<rparr>,
      \<lparr>task_results = [(''t1'', ''orig'')], persisted = []\<rparr>))))
   = [(1, ''merged_t1'', ''orig'')] \<and>
   isComplete (fst (snd (finalize service_getMergeResult
     (handleEditToggle (handleContentChange ''edited'' (handleEditToggle
        \<lparr>finalContent = ''orig'', isEditing = False, editedContent = ''orig'',
         rv_filename = ''Merged_a.txt'', rv_loading = False, rv_loadingMessage = [],
         rv_loadingProgress = None, rv_error = None, showConfirmDialog = True,
         rv_mergeTaskId = Some ''t1''\<rparr>)))
     (\<lparr>activeStep = 3, documents = [], mergeGoal = None,
       diffResult = (None :: unit DiffResult option), mergedContent = [], hp_error = None,
       success = None, loading = False, loadingMessage = [], loadingProgress = None,
       isComplete = False, mergeTaskId = None\<rparr>,
      \<lparr>task_results = [(''t1'', ''orig'')], persisted = []\<rparr>)))) \<and>
   ''orig'' \<noteq> ''edited''"
  by (simp add: finalize_def confirmFinalizeMerge_def handleFinalizeMerge_def
      handleEditToggle_def handleContentChange_def service_getMergeResult_def
      truthy_string_def truthy_number_def Let_def)

end
